theory Spec2Isabelle
  imports Complex_Main
begin

section \<open>Python values, errors and strings\<close>

text \<open>
  The submission module of CueSubmit (\<^verbatim>\<open>cuesubmit/Submission.py\<close>) is embedded function
  by function. A Python \<^verbatim>\<open>str\<close> is a \<^typ>\<open>string\<close>; a character stands for the code
  point of the same number, so the strings covered are those over U+0000 .. U+00FF.
  Every \<^verbatim>\<open>raise\<close> of the source is an \<open>Inl\<close> of the result.
\<close>

datatype error =
    ValueError string
  | KeyError string
  | TypeError string
  | AttributeError string
  | SubmissionError string

text \<open>
  The values a layer's \<^verbatim>\<open>cmd\<close> mapping and its \<^verbatim>\<open>dependType\<close> hold: \<^verbatim>\<open>None\<close>, a string,
  a boolean or an integer.
\<close>

datatype pyval = PNone | PStr string | PBool bool | PInt int

text \<open>Python truthiness, as \<^verbatim>\<open>if value:\<close> and \<^verbatim>\<open>not value\<close> read it.\<close>

fun py_truthy :: "pyval \<Rightarrow> bool" where
  "py_truthy PNone = False"
| "py_truthy (PStr s) = (s \<noteq> [])"
| "py_truthy (PBool b) = b"
| "py_truthy (PInt n) = (n \<noteq> 0)"

fun digits10 :: "nat \<Rightarrow> string" where
  "digits10 n =
     (if n < 10 then [char_of (48 + n)]
      else digits10 (n div 10) @ [char_of (48 + n mod 10)])"

declare digits10.simps [simp del]

text \<open>\<^verbatim>\<open>str(value)\<close>, which is what an f-string field \<^verbatim>\<open>{value}\<close> inserts.\<close>

fun py_str :: "pyval \<Rightarrow> string" where
  "py_str PNone = ''None''"
| "py_str (PStr s) = s"
| "py_str (PBool b) = (if b then ''True'' else ''False'')"
| "py_str (PInt n) = (if n < 0 then ''-'' @ digits10 (nat (- n)) else digits10 (nat n))"

text \<open>The test \<^verbatim>\<open>value in ('', None)\<close>.\<close>

definition in_empty_or_None :: "pyval \<Rightarrow> bool" where
  "in_empty_or_None v = (v = PStr [] \<or> v = PNone)"

section \<open>The regular expressions of the module\<close>

text \<open>
  \<^verbatim>\<open>\d\<close> and \<^verbatim>\<open>\w\<close> on a \<^verbatim>\<open>str\<close> pattern are the Unicode classes. Below U+0100 the
  decimal digits are \<^verbatim>\<open>0-9\<close>; the word characters are the ASCII letters, digits and
  underscore, and the alphanumeric code points of the Latin-1 block.
\<close>

definition is_digit :: "char \<Rightarrow> bool" where
  "is_digit c = (let n = (of_char c :: nat) in 48 \<le> n \<and> n \<le> 57)"

definition is_word :: "char \<Rightarrow> bool" where
  "is_word c =
     (let n = (of_char c :: nat) in
        (48 \<le> n \<and> n \<le> 57) \<or> (65 \<le> n \<and> n \<le> 90) \<or> (97 \<le> n \<and> n \<le> 122) \<or> n = 95 \<or>
        n = 170 \<or> n = 178 \<or> n = 179 \<or> n = 181 \<or> n = 185 \<or> n = 186 \<or>
        n = 188 \<or> n = 189 \<or> n = 190 \<or>
        (192 \<le> n \<and> n \<le> 214) \<or> (216 \<le> n \<and> n \<le> 246) \<or> (248 \<le> n \<and> n \<le> 255))"

definition is_dash :: "char \<Rightarrow> bool" where
  "is_dash c = (c = CHR ''-'')"

text \<open>
  \<^verbatim>\<open>$\<close> without \<^verbatim>\<open>re.MULTILINE\<close> matches at the end of the string and also just before
  a newline that ends the string.
\<close>

definition at_dollar :: "string \<Rightarrow> bool" where
  "at_dollar s = (s = [] \<or> s = [CHR 0x0A])"

text \<open>
  \<^verbatim>\<open>re.match(r"^-+\w+~$", flag)\<close>. No dash is a word character and the tilde is none
  either, so the greedy runs are the only way to match.
\<close>

definition isSoloFlag :: "string \<Rightarrow> bool" where
  "isSoloFlag flag =
     (let dashes = takeWhile is_dash flag;
          r1 = dropWhile is_dash flag;
          word = takeWhile is_word r1;
          r2 = dropWhile is_word r1
      in dashes \<noteq> [] \<and> word \<noteq> [] \<and>
         (case r2 of [] \<Rightarrow> False | c # r3 \<Rightarrow> c = CHR ''~'' \<and> at_dollar r3))"

text \<open>\<^verbatim>\<open>re.match(r"^-+\w+$", flag)\<close>.\<close>

definition isFlag :: "string \<Rightarrow> bool" where
  "isFlag flag =
     (let dashes = takeWhile is_dash flag;
          r1 = dropWhile is_dash flag;
          word = takeWhile is_word r1;
          r2 = dropWhile is_word r1
      in dashes \<noteq> [] \<and> word \<noteq> [] \<and> at_dollar r2)"

text \<open>\<^verbatim>\<open>re.match(r"^\d+-\d+$", frameRange)\<close>, the test of the Blender builder.\<close>

definition isFrameSpan :: "string \<Rightarrow> bool" where
  "isFrameSpan r =
     (let d1 = takeWhile is_digit r;
          r1 = dropWhile is_digit r
      in d1 \<noteq> [] \<and>
         (case r1 of
            [] \<Rightarrow> False
          | c # r2 \<Rightarrow> c = CHR ''-'' \<and> takeWhile is_digit r2 \<noteq> [] \<and>
                      at_dollar (dropWhile is_digit r2)))"

section \<open>The flag formatter\<close>

definition formatValue :: "string \<Rightarrow> pyval \<Rightarrow> bool \<Rightarrow> bool \<Rightarrow> pyval" where
  "formatValue flag value isPath isMandatory =
     (let value1 = (if isPath \<and> py_truthy value
                    then PStr ([CHR 0x22] @ py_str value @ [CHR 0x22]) else value);
          value2 = (if isMandatory \<and> in_empty_or_None value1
                    then PStr (''!!missing value for '' @ flag @ ''!!'') else value1)
      in value2)"

section \<open>Layer descriptions and configuration\<close>

text \<open>
  A key of the \<^verbatim>\<open>cmd\<close> dictionary is a parameter name (named engines) or a tuple
  \<^verbatim>\<open>(flag, isPath, isMandatory)\<close> (config-driven engines). The dictionary is the list of
  its items in insertion order; its keys are distinct.
\<close>

datatype cmdkey = Name string | Flag string bool bool

type_synonym cmddict = "(cmdkey \<times> pyval) list"

text \<open>\<^verbatim>\<open>cmd.get(key, default)\<close> and \<^verbatim>\<open>cmd[key]\<close>.\<close>

definition cmd_get :: "cmddict \<Rightarrow> string \<Rightarrow> pyval \<Rightarrow> pyval" where
  "cmd_get d k dflt = (case map_of d (Name k) of None \<Rightarrow> dflt | Some v \<Rightarrow> v)"

definition cmd_item :: "cmddict \<Rightarrow> string \<Rightarrow> error + pyval" where
  "cmd_item d k = (case map_of d (Name k) of None \<Rightarrow> Inl (KeyError k) | Some v \<Rightarrow> Inr v)"

text \<open>
  \<^verbatim>\<open>LayerData\<close>, with the fields the module reads. Its class (\<^verbatim>\<open>cuesubmit.Layer\<close>) is not
  among the source files; the types are the spec's. \<^verbatim>\<open>cores\<close> is the numeric core
  count: \<^verbatim>\<open>float(cores)\<close> keeps the order against 0 and 2, which floats represent
  exactly, so the comparisons of \<^verbatim>\<open>buildLayer\<close> are made on the number itself.
\<close>

record layerData =
  name :: string
  layerType :: string
  cmd :: cmddict
  layerRange :: string
  chunk :: int
  cores :: real
  overrideCores :: bool
  services :: "string list"
  limits :: "string list"
  dependType :: pyval

text \<open>
  \<^verbatim>\<open>cuesubmit.Constants\<close> and \<^verbatim>\<open>cuesubmit.JobTypes\<close> are not among the source files: their
  values are parameters of the model. \<^verbatim>\<open>RENDER_CMDS\<close> maps a config-driven layer type to
  its \<^verbatim>\<open>'command'\<close> template, a string; \<^verbatim>\<open>FROM_CONFIG_FILE\<close> lists the config-driven
  layer types.
\<close>

record constants =
  RENDER_CMDS :: "string \<rightharpoonup> string"
  MAYA_RENDER_CMD :: string
  NUKE_RENDER_CMD :: string
  BLENDER_RENDER_CMD :: string
  FRAME_TOKEN :: string
  FRAME_START_TOKEN :: string
  FRAME_END_TOKEN :: string

record jobTypes =
  FROM_CONFIG_FILE :: "string list"
  MAYA :: string
  SHELL :: string
  NUKE :: string
  BLENDER :: string

section \<open>The command builders\<close>

text \<open>
  The target \<^verbatim>\<open>(flag, isPath, isMandatory)\<close> of the loop of \<^verbatim>\<open>buildDynamicCmd\<close> unpacks
  the key: a tuple gives its components, a string key gives its characters when there
  are three of them and raises otherwise.
\<close>

fun unpack_key :: "cmdkey \<Rightarrow> error + (string \<times> bool \<times> bool)" where
  "unpack_key (Flag flag isPath isMandatory) = Inr (flag, isPath, isMandatory)"
| "unpack_key (Name [a, b, c]) = Inr ([a], True, True)"
| "unpack_key (Name s) = Inl (ValueError ''cannot unpack key'')"

text \<open>The body of the loop of \<^verbatim>\<open>buildDynamicCmd\<close>, on the command built so far.\<close>

definition dynamicStep :: "string \<Rightarrow> cmdkey \<times> pyval \<Rightarrow> error + string" where
  "dynamicStep renderCommand item =
     (case unpack_key (fst item) of
        Inl e \<Rightarrow> Inl e
      | Inr (flag, isPath, isMandatory) \<Rightarrow>
          if isSoloFlag flag then Inr (renderCommand @ '' '' @ butlast flag)
          else
            let value = formatValue flag (snd item) isPath isMandatory in
            if isFlag flag \<and> \<not> in_empty_or_None value
            then Inr (renderCommand @ '' '' @ flag @ '' '' @ py_str value)
            else if \<not> in_empty_or_None value
            then Inr (renderCommand @ '' '' @ py_str value)
            else Inr renderCommand)"

fun dynamicLoop :: "string \<Rightarrow> cmddict \<Rightarrow> error + string" where
  "dynamicLoop renderCommand [] = Inr renderCommand"
| "dynamicLoop renderCommand (item # items) =
     (case dynamicStep renderCommand item of
        Inl e \<Rightarrow> Inl e
      | Inr renderCommand' \<Rightarrow> dynamicLoop renderCommand' items)"

definition buildDynamicCmd :: "constants \<Rightarrow> layerData \<Rightarrow> error + string" where
  "buildDynamicCmd C layerData =
     (case RENDER_CMDS C (layerType layerData) of
        None \<Rightarrow> Inl (KeyError (layerType layerData))
      | Some renderCommand \<Rightarrow> dynamicLoop renderCommand (cmd layerData))"

definition buildMayaCmd :: "constants \<Rightarrow> layerData \<Rightarrow> bool \<Rightarrow> error + pyval list" where
  "buildMayaCmd C layerData silent =
     (let camera = cmd_get (cmd layerData) ''camera'' PNone;
          mayaFile = cmd_get (cmd layerData) ''mayaFile'' PNone
      in if \<not> py_truthy mayaFile \<and> \<not> silent
         then Inl (ValueError ''No Maya File provided. Cannot submit job.'')
         else Inr ([PStr (MAYA_RENDER_CMD C), PStr ''-r'', PStr ''file'', PStr ''-s'',
                    PStr (FRAME_START_TOKEN C), PStr ''-e'', PStr (FRAME_END_TOKEN C)]
                   @ (if py_truthy camera then [PStr ''-cam'', camera] else [])
                   @ [mayaFile]))"

definition buildNukeCmd :: "constants \<Rightarrow> layerData \<Rightarrow> bool \<Rightarrow> error + pyval list" where
  "buildNukeCmd C layerData silent =
     (let writeNodes = cmd_get (cmd layerData) ''writeNodes'' PNone;
          nukeFile = cmd_get (cmd layerData) ''nukeFile'' PNone
      in if \<not> py_truthy nukeFile \<and> \<not> silent
         then Inl (ValueError ''No Nuke file provided. Cannot submit job.'')
         else Inr ([PStr (NUKE_RENDER_CMD C), PStr ''-F'', PStr (FRAME_TOKEN C)]
                   @ (if py_truthy writeNodes then [PStr ''-X'', writeNodes] else [])
                   @ [PStr ''-x'', nukeFile]))"

definition buildBlenderCmd :: "constants \<Rightarrow> layerData \<Rightarrow> bool \<Rightarrow> error + pyval list" where
  "buildBlenderCmd C layerData silent =
     (let blenderFile = cmd_get (cmd layerData) ''blenderFile'' PNone;
          blenderExecutable =
            cmd_get (cmd layerData) ''blenderExecutable'' (PStr (BLENDER_RENDER_CMD C));
          outputPath = cmd_get (cmd layerData) ''outputPath'' PNone;
          outputFormat = cmd_get (cmd layerData) ''outputFormat'' PNone;
          useCompositing = cmd_get (cmd layerData) ''useCompositing'' (PBool True);
          frameRange = layerRange layerData
      in if \<not> py_truthy blenderFile \<and> \<not> silent
         then Inl (ValueError ''No Blender file provided. Cannot submit job.'')
         else Inr ([blenderExecutable, PStr ''-b'', PStr ''-noaudio'', blenderFile]
                   @ (if py_truthy useCompositing then [PStr ''--use-compositing''] else [])
                   @ (if py_truthy outputPath then [PStr ''-o'', outputPath] else [])
                   @ (if py_truthy outputFormat then [PStr ''-F'', outputFormat] else [])
                   @ (if isFrameSpan frameRange
                      then [PStr ''-s'', PStr (FRAME_START_TOKEN C), PStr ''-e'',
                            PStr (FRAME_END_TOKEN C), PStr ''-a'']
                      else [PStr ''-f'', PStr (FRAME_TOKEN C)])))"

section \<open>Tokenizing a command line: \<^verbatim>\<open>shlex.split\<close>\<close>

text \<open>
  \<^verbatim>\<open>shlex.split(s)\<close> runs the standard library's lexer in POSIX mode with
  \<^verbatim>\<open>whitespace_split\<close> set, no comment characters and no punctuation characters. The
  lexer's \<^verbatim>\<open>state\<close> is \<^verbatim>\<open>None\<close> after the end of the input, \<^verbatim>\<open>' '\<close> between tokens,
  \<^verbatim>\<open>'a'\<close> inside a word, the quote character inside a quotation and the escape
  character after a backslash.
\<close>

datatype lexstate = AtEof | Blank | InWord | InQuote char | InEscape

definition is_whitespace :: "char \<Rightarrow> bool" where
  "is_whitespace c = (c = CHR '' '' \<or> c = CHR 0x09 \<or> c = CHR 0x0D \<or> c = CHR 0x0A)"

definition is_quote :: "char \<Rightarrow> bool" where
  "is_quote c = (c = CHR 0x27 \<or> c = CHR 0x22)"

definition is_escape :: "char \<Rightarrow> bool" where
  "is_escape c = (c = CHR 0x5C)"

text \<open>
  Leaving the loop of \<^verbatim>\<open>read_token\<close>: the token read is returned, and an empty token
  that was never quoted is \<^verbatim>\<open>None\<close>.
\<close>

definition emit :: "bool \<Rightarrow> string \<Rightarrow> lexstate \<Rightarrow> string
    \<Rightarrow> error + (string option \<times> lexstate \<times> string)" where
  "emit quoted token st rest =
     Inr (if \<not> quoted \<and> token = [] then None else Some token, st, rest)"

text \<open>
  \<^verbatim>\<open>read_token\<close>: the arguments are \<^verbatim>\<open>state\<close>, \<^verbatim>\<open>escapedstate\<close>, \<^verbatim>\<open>quoted\<close>, the token
  collected so far and the unread input; every pass of the loop reads one character
  (nothing at the end of the input). The result holds the token, the state the lexer
  is left in and the unread input.
\<close>

fun read_token :: "lexstate \<Rightarrow> lexstate \<Rightarrow> bool \<Rightarrow> string \<Rightarrow> string
    \<Rightarrow> error + (string option \<times> lexstate \<times> string)" where
  "read_token AtEof esc quoted token [] = emit quoted [] AtEof []"
| "read_token AtEof esc quoted token (c # cs) = emit quoted [] AtEof cs"
| "read_token Blank esc quoted token [] = emit quoted token AtEof []"
| "read_token Blank esc quoted token (c # cs) =
     (if is_whitespace c then
        (if token \<noteq> [] \<or> quoted then emit quoted token Blank cs
         else read_token Blank esc quoted token cs)
      else if is_escape c then read_token InEscape InWord quoted token cs
      else if is_quote c then read_token (InQuote c) esc quoted token cs
      else read_token InWord esc quoted [c] cs)"
| "read_token (InQuote q) esc quoted token [] = Inl (ValueError ''No closing quotation'')"
| "read_token (InQuote q) esc quoted token (c # cs) =
     (if c = q then read_token InWord esc True token cs
      else if is_escape c \<and> q = CHR 0x22 then read_token InEscape (InQuote q) True token cs
      else read_token (InQuote q) esc True (token @ [c]) cs)"
| "read_token InEscape esc quoted token [] = Inl (ValueError ''No escaped character'')"
| "read_token InEscape esc quoted token (c # cs) =
     (let token1 =
            (case esc of
               InQuote e \<Rightarrow> if c \<noteq> CHR 0x5C \<and> c \<noteq> e then token @ [CHR 0x5C] else token
             | _ \<Rightarrow> token)
      in read_token esc esc quoted (token1 @ [c]) cs)"
| "read_token InWord esc quoted token [] = emit quoted token AtEof []"
| "read_token InWord esc quoted token (c # cs) =
     (if is_whitespace c then
        (if token \<noteq> [] \<or> quoted then emit quoted token Blank cs
         else read_token Blank esc quoted token cs)
      else if is_quote c then read_token (InQuote c) esc quoted token cs
      else if is_escape c then read_token InEscape InWord quoted token cs
      else read_token InWord esc quoted (token @ [c]) cs)"

text \<open>
  \<^verbatim>\<open>list(lex)\<close>: tokens are read, each with fresh \<^verbatim>\<open>quoted\<close>, \<^verbatim>\<open>escapedstate\<close> and
  \<^verbatim>\<open>token\<close>, until \<^verbatim>\<open>read_token\<close> returns \<^verbatim>\<open>None\<close>.
\<close>

function shlex_tokens :: "lexstate \<Rightarrow> string \<Rightarrow> error + string list" where
  "shlex_tokens st inp =
     (case read_token st Blank False [] inp of
        Inl e \<Rightarrow> Inl e
      | Inr (None, st', rest) \<Rightarrow> Inr []
      | Inr (Some t, st', rest) \<Rightarrow>
          (case shlex_tokens st' rest of
             Inl e \<Rightarrow> Inl e
           | Inr ts \<Rightarrow> Inr (t # ts)))"
  by pat_completeness auto

termination shlex_tokens
proof -
  have shorter: "length rest \<le> length inp"
    if "read_token st esc quoted token inp = Inr (r, st', rest)"
    for st esc quoted token inp r st' rest
    using that
    by (induction st esc quoted token inp rule: read_token.induct)
       (auto simp: emit_def Let_def split: if_splits)
  have consumes: "length rest < length inp"
    if t: "read_token st Blank False [] inp = Inr (Some t, st', rest)"
    for st inp t st' rest
  proof (cases inp)
    case Nil
    with t show ?thesis
      by (cases st) (simp_all add: emit_def)
  next
    case (Cons c cs)
    with t have "length rest \<le> length cs"
      by (cases st)
         (auto simp: emit_def Let_def split: if_splits lexstate.splits dest: shorter)
    with Cons show ?thesis by simp
  qed
  show ?thesis
    by (relation "measure (\<lambda>(st, inp). length inp)") (auto dest: consumes)
qed

declare shlex_tokens.simps [simp del]

definition shlex_split :: "string \<Rightarrow> error + string list" where
  "shlex_split s = shlex_tokens Blank s"

section \<open>The layer assembler\<close>

text \<open>
  A command is the string of the config-driven builder (or the placeholder of the
  silent mode) or an argument list.
\<close>

datatype command = CmdStr string | CmdList "pyval list"

text \<open>
  Modelled from the spec: the layer object of PyOutline (\<^verbatim>\<open>outline.modules.shell.Shell\<close>),
  which is not among the source files. It carries the name, command, chunk size, cores,
  frame range and threadable flag it is built with, the service and limits set on it,
  and its dependency edges: \<^verbatim>\<open>depend_all\<close> adds an all-to-all (layer-on-layer) edge to
  the given layer and \<^verbatim>\<open>depend_on\<close> a frame-indexed (frame-by-frame) one.
\<close>

datatype depend = LayerOnLayer | FrameByFrame

datatype layer =
  Shell (shell_name: string) (shell_command: "pyval list") (shell_chunk: int)
        (shell_cores: "real option") (shell_range: string) (shell_threadable: bool)
        (shell_service: "string option") (shell_limits: "string list")
        (shell_depends: "(depend \<times> layer) list")

fun set_service :: "layer \<Rightarrow> string \<Rightarrow> layer" where
  "set_service (Shell n c k co r t s l d) service = Shell n c k co r t (Some service) l d"

fun set_limits :: "layer \<Rightarrow> string list \<Rightarrow> layer" where
  "set_limits (Shell n c k co r t s l d) lims = Shell n c k co r t s lims d"

fun depend_all :: "layer \<Rightarrow> layer \<Rightarrow> layer" where
  "depend_all (Shell n c k co r t s l d) on_layer =
     Shell n c k co r t s l (d @ [(LayerOnLayer, on_layer)])"

fun depend_on :: "layer \<Rightarrow> layer \<Rightarrow> layer" where
  "depend_on (Shell n c k co r t s l d) on_layer =
     Shell n c k co r t s l (d @ [(FrameByFrame, on_layer)])"

text \<open>
  The service registry behind \<^verbatim>\<open>cuesubmit.Util\<close>, a parameter of the model:
  \<^verbatim>\<open>getServices()\<close> lists the registered names and \<^verbatim>\<open>getServiceOption(name, option)\<close>
  reads an option of a service, a boolean for \<^verbatim>\<open>threadable\<close>.
\<close>

record util =
  getServices :: "string list"
  getServiceOption :: "string \<Rightarrow> string \<Rightarrow> bool"

text \<open>The first lines of \<^verbatim>\<open>buildLayer\<close>, which resolve \<^verbatim>\<open>threadable\<close>.\<close>

definition resolveThreadable :: "util \<Rightarrow> layerData \<Rightarrow> bool" where
  "resolveThreadable U layerData =
     (if overrideCores layerData
      then cores layerData \<ge> 2 \<or> cores layerData \<le> 0
      else (case services layerData of
              [] \<Rightarrow> False
            | service # _ \<Rightarrow>
                if service \<in> set (getServices U)
                then getServiceOption U service ''threadable''
                else False))"

text \<open>
  \<^verbatim>\<open>command if isinstance(command, list) else shlex.split(command)\<close>; the tokens of a
  string are strings.
\<close>

definition command_tokens :: "command \<Rightarrow> error + pyval list" where
  "command_tokens command =
     (case command of
        CmdList args \<Rightarrow> Inr args
      | CmdStr s \<Rightarrow>
          (case shlex_split s of Inl e \<Rightarrow> Inl e | Inr ts \<Rightarrow> Inr (map PStr ts)))"

definition buildLayer :: "util \<Rightarrow> layerData \<Rightarrow> command \<Rightarrow> layer option \<Rightarrow> error + layer" where
  "buildLayer U layerData command lastLayer =
     (let threadable = resolveThreadable U layerData;
          cores' = (if overrideCores layerData then Some (cores layerData) else None)
      in case command_tokens command of
           Inl e \<Rightarrow> Inl e
         | Inr tokens \<Rightarrow>
             let layer0 = Shell (name layerData) tokens (chunk layerData) cores'
                            (layerRange layerData) threadable None [] [];
                 layer1 = (case services layerData of
                             [] \<Rightarrow> layer0
                           | service # _ \<Rightarrow> set_service layer0 service);
                 layer2 = (if limits layerData \<noteq> []
                           then set_limits layer1 (limits layerData) else layer1);
                 layer3 = (case lastLayer of
                             None \<Rightarrow> layer2
                           | Some previous \<Rightarrow>
                               if py_truthy (dependType layerData)
                               then (if dependType layerData = PStr ''Layer''
                                     then depend_all layer2 previous
                                     else depend_on layer2 previous)
                               else layer2)
             in Inr layer3)"

section \<open>Dispatch on the layer type\<close>

text \<open>
  The shell branch of \<^verbatim>\<open>buildLayerCommand\<close>: \<^verbatim>\<open>cmd.get\<close> in silent mode and \<^verbatim>\<open>cmd[...]\<close>,
  which raises on a missing key, otherwise; a falsy command gives the empty list, and
  \<^verbatim>\<open>shlex.split\<close> of a truthy value that is no string fails to read from it.
\<close>

definition buildShellCmd :: "layerData \<Rightarrow> bool \<Rightarrow> error + pyval list" where
  "buildShellCmd layerData silent =
     (case (if silent then Inr (cmd_get (cmd layerData) ''commandTextBox'' PNone)
            else cmd_item (cmd layerData) ''commandTextBox'') of
        Inl e \<Rightarrow> Inl e
      | Inr shell_cmd \<Rightarrow>
          if py_truthy shell_cmd then
            (case shell_cmd of
               PStr s \<Rightarrow>
                 (case shlex_split s of Inl e \<Rightarrow> Inl e | Inr ts \<Rightarrow> Inr (map PStr ts))
             | _ \<Rightarrow> Inl (AttributeError ''read''))
          else Inr [])"

definition buildLayerCommand ::
    "jobTypes \<Rightarrow> constants \<Rightarrow> layerData \<Rightarrow> bool \<Rightarrow> error + command" where
  "buildLayerCommand J C layerData silent =
     (if layerType layerData \<in> set (FROM_CONFIG_FILE J)
      then map_sum id CmdStr (buildDynamicCmd C layerData)
      else if layerType layerData = MAYA J
      then map_sum id CmdList (buildMayaCmd C layerData silent)
      else if layerType layerData = SHELL J
      then map_sum id CmdList (buildShellCmd layerData silent)
      else if layerType layerData = NUKE J
      then map_sum id CmdList (buildNukeCmd C layerData silent)
      else if layerType layerData = BLENDER J
      then map_sum id CmdList (buildBlenderCmd C layerData silent)
      else if silent
      then Inr (CmdStr (''Error: unrecognized layer type '' @ layerType layerData))
      else Inl (ValueError (''unrecognized layer type '' @ layerType layerData)))"

section \<open>The job assembler\<close>

record jobData =
  job_name :: string
  job_shot :: string
  job_show :: string
  job_username :: string
  job_layers :: "layerData list"
  job_facility :: "string option"

text \<open>
  Modelled from the spec: the job object of PyOutline (\<^verbatim>\<open>outline.Outline\<close>), which is not
  among the source files. It holds the job's name, shot, show and user, the layers in
  the order \<^verbatim>\<open>add_layer\<close> received them, and the facility once \<^verbatim>\<open>set_facility\<close> is called.
\<close>

record outline =
  ol_name :: string
  ol_shot :: string
  ol_show :: string
  ol_user :: string
  ol_layers :: "layer list"
  ol_facility :: "string option"

definition add_layer :: "outline \<Rightarrow> layer \<Rightarrow> outline" where
  "add_layer ol layer = ol\<lparr>ol_layers := ol_layers ol @ [layer]\<rparr>"

text \<open>The loop of \<^verbatim>\<open>submitJob\<close> over \<^verbatim>\<open>jobData['layers']\<close>, on \<^verbatim>\<open>ol\<close> and \<^verbatim>\<open>lastLayer\<close>.\<close>

fun layerLoop :: "util \<Rightarrow> jobTypes \<Rightarrow> constants \<Rightarrow> layerData list \<Rightarrow> layer option
    \<Rightarrow> outline \<Rightarrow> error + outline" where
  "layerLoop U J C [] lastLayer ol = Inr ol"
| "layerLoop U J C (layerData # rest) lastLayer ol =
     (case buildLayerCommand J C layerData False of
        Inl e \<Rightarrow> Inl e
      | Inr command \<Rightarrow>
          (case buildLayer U layerData command lastLayer of
             Inl e \<Rightarrow> Inl e
           | Inr layer \<Rightarrow> layerLoop U J C rest (Some layer) (add_layer ol layer)))"

text \<open>
  \<^verbatim>\<open>submitJob\<close>. The submission interface \<^verbatim>\<open>outline.cuerun.launch\<close> is the parameter
  \<open>launch\<close>; the jobs handed to it so far are the state, and the result is what the
  call returns together with the new state.
\<close>

definition submitJob :: "util \<Rightarrow> jobTypes \<Rightarrow> constants \<Rightarrow> (outline \<Rightarrow> error + 'h)
    \<Rightarrow> jobData \<Rightarrow> outline list \<Rightarrow> (error + 'h) \<times> outline list" where
  "submitJob U J C launch jobData launched =
     (let ol = \<lparr>ol_name = job_name jobData, ol_shot = job_shot jobData,
                ol_show = job_show jobData, ol_user = job_username jobData,
                ol_layers = [], ol_facility = None\<rparr>
      in case layerLoop U J C (job_layers jobData) None ol of
           Inl e \<Rightarrow> (Inl e, launched)
         | Inr ol1 \<Rightarrow>
             let ol2 = (case job_facility jobData of
                          None \<Rightarrow> ol1
                        | Some facility \<Rightarrow> ol1\<lparr>ol_facility := Some facility\<rparr>)
             in (launch ol2, launched @ [ol2]))"

section \<open>An example configuration\<close>

text \<open>
  Values of the parameters for the examples below: the job types and constants of a
  default installation, one config-driven engine and a registry of two services.
\<close>

definition cfgJobTypes :: jobTypes where
  "cfgJobTypes = \<lparr>FROM_CONFIG_FILE = [''Houdini''], MAYA = ''Maya'', SHELL = ''Shell'',
                   NUKE = ''Nuke'', BLENDER = ''Blender''\<rparr>"

definition cfgConstants :: constants where
  "cfgConstants = \<lparr>RENDER_CMDS = [''Houdini'' \<mapsto> ''hrender''], MAYA_RENDER_CMD = ''Render'',
                    NUKE_RENDER_CMD = ''nuke'', BLENDER_RENDER_CMD = ''blender'',
                    FRAME_TOKEN = ''#IFRAME#'', FRAME_START_TOKEN = ''#FRAME_START#'',
                    FRAME_END_TOKEN = ''#FRAME_END#''\<rparr>"

definition cfgUtil :: util where
  "cfgUtil = \<lparr>getServices = [''maya'', ''shell''],
               getServiceOption = (\<lambda>service option. service = ''maya'' \<and> option = ''threadable'')\<rparr>"

definition mkLayer :: "string \<Rightarrow> string \<Rightarrow> cmddict \<Rightarrow> string \<Rightarrow> pyval \<Rightarrow> layerData" where
  "mkLayer n t c r d =
     \<lparr>name = n, layerType = t, cmd = c, layerRange = r, chunk = 1, cores = 0,
      overrideCores = False, services = [], limits = [], dependType = d\<rparr>"

lemmas cfg_defs = cfgJobTypes_def cfgConstants_def cfgUtil_def mkLayer_def

definition exJob :: "layerData list \<Rightarrow> jobData" where
  "exJob ls = \<lparr>job_name = ''job'', job_shot = ''sh01'', job_show = ''testing'',
               job_username = ''artist'', job_layers = ls, job_facility = None\<rparr>"

definition exLaunch :: "outline \<Rightarrow> error + nat" where
  "exLaunch ol = Inr (length (ol_layers ol))"

definition threeLayers :: "layerData list" where
  "threeLayers =
     [mkLayer ''one'' ''Shell'' [(Name ''commandTextBox'', PStr ''echo one'')] ''1-5'' PNone,
      mkLayer ''two'' ''Shell'' [(Name ''commandTextBox'', PStr ''echo two'')] ''1-5''
        (PStr ''Layer''),
      mkLayer ''three'' ''Shell'' [(Name ''commandTextBox'', PStr ''echo three'')] ''1-5'' PNone]"

definition brokenLayers :: "layerData list" where
  "brokenLayers =
     [mkLayer ''one'' ''Shell'' [(Name ''commandTextBox'', PStr ''echo one'')] ''1-5'' PNone,
      mkLayer ''two'' ''Maya'' [(Name ''camera'', PStr ''persp'')] ''1-5'' PNone]"

definition unknownLayers :: "layerData list" where
  "unknownLayers =
     [mkLayer ''one'' ''Katana'' [] ''1-5'' PNone,
      mkLayer ''two'' ''Shell'' [(Name ''commandTextBox'', PStr ''echo two'')] ''1-5'' PNone]"

section \<open>Helper facts\<close>

lemma buildLayer_Inr:
  "buildLayer U l c prev = Inr layer \<Longrightarrow>
   \<exists>tokens. command_tokens c = Inr tokens \<and>
     layer = Shell (name l) tokens (chunk l)
       (if overrideCores l then Some (cores l) else None)
       (layerRange l) (resolveThreadable U l)
       (case services l of [] \<Rightarrow> None | s # _ \<Rightarrow> Some s)
       (limits l)
       (case prev of
          None \<Rightarrow> []
        | Some p \<Rightarrow>
            if py_truthy (dependType l)
            then [(if dependType l = PStr ''Layer'' then LayerOnLayer else FrameByFrame, p)]
            else [])"
  by (auto simp: buildLayer_def Let_def split: sum.splits list.splits option.splits if_splits)


lemma buildLayer_depends:
  "buildLayer U l c prev = Inr layer \<Longrightarrow>
   shell_depends layer =
     (case prev of
        None \<Rightarrow> []
      | Some p \<Rightarrow>
          if py_truthy (dependType l)
          then [(if dependType l = PStr ''Layer'' then LayerOnLayer else FrameByFrame, p)]
          else [])"
  by (drule buildLayer_Inr) auto

lemma layerLoop_layers:
  "layerLoop U J C lds prev ol = Inr ol' \<Longrightarrow>
   \<exists>new. ol' = ol\<lparr>ol_layers := ol_layers ol @ new\<rparr> \<and> length new = length lds \<and>
     (\<forall>i<length lds. shell_depends (new ! i) =
        (case (if i = 0 then prev else Some (new ! (i - 1))) of
           None \<Rightarrow> []
         | Some p \<Rightarrow>
             if py_truthy (dependType (lds ! i))
             then [(if dependType (lds ! i) = PStr ''Layer'' then LayerOnLayer
                    else FrameByFrame, p)]
             else []))"
proof (induction lds arbitrary: prev ol)
  case Nil
  then show ?case by simp
next
  case (Cons l lds)
  let ?edge = "\<lambda>d q. case q of
           None \<Rightarrow> []
         | Some p \<Rightarrow>
             if py_truthy (dependType d)
             then [(if dependType d = PStr ''Layer'' then LayerOnLayer else FrameByFrame, p)]
             else []"
  from Cons.prems obtain c layer where
    b: "buildLayer U l c prev = Inr layer" and
    r: "layerLoop U J C lds (Some layer) (add_layer ol layer) = Inr ol'"
    by (auto split: sum.splits)
  from Cons.IH[OF r] obtain new where
    n1: "ol' = (add_layer ol layer)\<lparr>ol_layers := ol_layers (add_layer ol layer) @ new\<rparr>" and
    n2: "length new = length lds" and
    n3: "\<forall>i<length lds. shell_depends (new ! i) =
          ?edge (lds ! i) (if i = 0 then Some layer else Some (new ! (i - 1)))"
    by blast
  have d: "shell_depends layer = ?edge l prev"
    by (rule buildLayer_depends[OF b])
  have "\<forall>i<length (l # lds). shell_depends ((layer # new) ! i) =
        ?edge ((l # lds) ! i) (if i = 0 then prev else Some ((layer # new) ! (i - 1)))"
  proof (intro allI impI)
    fix i assume i: "i < length (l # lds)"
    show "shell_depends ((layer # new) ! i) =
        ?edge ((l # lds) ! i) (if i = 0 then prev else Some ((layer # new) ! (i - 1)))"
    proof (cases i)
      case 0
      then show ?thesis using d by (simp split: option.splits)
    next
      case (Suc j)
      with i have "j < length lds" by simp
      with n3 have "shell_depends (new ! j) =
          ?edge (lds ! j) (if j = 0 then Some layer else Some (new ! (j - 1)))" by blast
      with Suc show ?thesis by (cases j) (simp_all split: option.splits)
    qed
  qed
  moreover have "ol' = ol\<lparr>ol_layers := ol_layers ol @ (layer # new)\<rparr>"
    using n1 by (simp add: add_layer_def)
  moreover have "length (layer # new) = length (l # lds)" using n2 by simp
  ultimately show ?case by blast
qed

lemma layerLoop_command_fails:
  "ld \<in> set lds \<Longrightarrow> isl (buildLayerCommand J C ld False) \<Longrightarrow> isl (layerLoop U J C lds prev ol)"
proof (induction lds arbitrary: prev ol)
  case Nil
  then show ?case by simp
next
  case (Cons l lds)
  show ?case
  proof (cases "buildLayerCommand J C l False")
    case (Inl e)
    then show ?thesis by simp
  next
    case (Inr c)
    with Cons.prems have "ld \<in> set lds" by auto
    with Cons.IH Cons.prems(2) have "\<And>prev ol. isl (layerLoop U J C lds prev ol)" by blast
    with Inr show ?thesis by (simp split: sum.splits)
  qed
qed

lemma shell_echo:
  "shlex_split ''echo one'' = Inr [''echo'', ''one'']"
  "shlex_split ''echo two'' = Inr [''echo'', ''two'']"
  "shlex_split ''echo three'' = Inr [''echo'', ''three'']"
  by (simp_all add: shlex_split_def shlex_tokens.simps emit_def is_whitespace_def
        is_quote_def is_escape_def)

lemma submitJob_cases:
  "submitJob U J C launch jd launched = (r, launched') \<Longrightarrow>
   (isl r \<and> launched' = launched) \<or> (\<exists>ol. launched' = launched @ [ol] \<and> r = launch ol)"
  by (auto simp: submitJob_def Let_def split: sum.splits)

lemma dynamicLoop_append:
  "dynamicLoop renderCommand (xs @ ys) =
     (case dynamicLoop renderCommand xs of
        Inl e \<Rightarrow> Inl e
      | Inr renderCommand' \<Rightarrow> dynamicLoop renderCommand' ys)"
  by (induction xs arbitrary: renderCommand) (auto split: sum.splits)

lemma buildDynamicCmd_snoc:
  "buildDynamicCmd C (l\<lparr>cmd := items @ [item]\<rparr>) =
     (case buildDynamicCmd C (l\<lparr>cmd := items\<rparr>) of
        Inl e \<Rightarrow> Inl e
      | Inr renderCommand \<Rightarrow> dynamicStep renderCommand item)"
  by (auto simp: buildDynamicCmd_def dynamicLoop_append split: option.splits sum.splits)

lemma dynamicStep_solo:
  "isSoloFlag flag \<Longrightarrow>
   dynamicStep renderCommand (Flag flag isPath isMandatory, v) =
     Inr (renderCommand @ '' '' @ butlast flag)"
  by (simp add: dynamicStep_def)

lemma formatValue_missing:
  "in_empty_or_None v \<Longrightarrow>
   formatValue flag v isPath True = PStr (''!!missing value for '' @ flag @ ''!!'')"
  by (auto simp: formatValue_def in_empty_or_None_def)

lemma not_word_dash: "\<not> is_word CHR ''-''" and not_word_tilde: "\<not> is_word CHR ''~''"
  by (simp_all add: is_word_def)

lemma isSoloFlag_shape:
  assumes "dashes \<noteq> []" and "\<forall>c\<in>set dashes. c = CHR ''-''"
    and "word \<noteq> []" and "\<forall>c\<in>set word. is_word c"
  shows "isSoloFlag (dashes @ word @ ''~'')"
proof -
  from assms(3) obtain w ws where w: "word = w # ws" by (cases word) auto
  with assms(4) have "is_word w" by simp
  then have nd: "\<not> is_dash w" using not_word_dash by (auto simp: is_dash_def)
  have d: "\<forall>c\<in>set dashes. is_dash c" using assms(2) by (simp add: is_dash_def)
  have t1: "takeWhile is_dash (dashes @ word @ ''~'') = dashes"
    using d nd w by (simp add: takeWhile_append2)
  have d1: "dropWhile is_dash (dashes @ word @ ''~'') = word @ ''~''"
    using d nd w by (simp add: dropWhile_append2)
  have t2: "takeWhile is_word (word @ ''~'') = word"
    using assms(4) not_word_tilde by (simp add: takeWhile_append2)
  have d2: "dropWhile is_word (word @ ''~'') = ''~''"
    using assms(4) not_word_tilde by (simp add: dropWhile_append2)
  show ?thesis
    using assms(1,3) by (simp add: isSoloFlag_def t1 d1 t2 d2 at_dollar_def del: append_assoc)
qed

text \<open>
  \<^verbatim>\<open>$\<close> accepts a newline at the end: such a token is a solo flag for \<^verbatim>\<open>isSoloFlag\<close>, and
  \<^verbatim>\<open>flag[:-1]\<close> then removes the newline and keeps the tilde. A range with a newline
  at its end is a frame span as well.
\<close>

lemma isSoloFlag_newline:
  "isSoloFlag (''--bg~'' @ [CHR 0x0A])"
  "dynamicStep renderCommand (Flag (''--bg~'' @ [CHR 0x0A]) isPath isMandatory, v) =
     Inr (renderCommand @ '' --bg~'')"
  by (simp_all add: dynamicStep_def isSoloFlag_def is_dash_def is_word_def at_dollar_def)

lemma isFrameSpan_newline: "isFrameSpan (''1-100'' @ [CHR 0x0A])"
  by (simp add: isFrameSpan_def is_digit_def at_dollar_def)

lemma shell_quoted:
  "shlex_split ([CHR 0x22] @ ''my app'' @ [CHR 0x22] @ '' --flag '' @ [CHR 0x22]
                @ ''value with space'' @ [CHR 0x22]) =
     Inr [''my app'', ''--flag'', ''value with space'']"
  by (simp add: shlex_split_def shlex_tokens.simps emit_def is_whitespace_def is_quote_def
        is_escape_def)


section \<open>Claims\<close>

subsection \<open>C1: a Maya layer without a scene file\<close>

text \<open>
  C1 (as amended). A layer that dispatches to the Maya builder and whose \<^verbatim>\<open>mayaFile\<close> is
  falsy, which covers a \<^verbatim>\<open>cmd\<close> with no such entry (the lookup gives \<^verbatim>\<open>None\<close>) and an
  empty one: in normal mode \<^verbatim>\<open>buildLayerCommand\<close> raises the \<^verbatim>\<open>ValueError\<close> of the
  builder; in silent mode it raises nothing and returns an argument list, the fixed
  invocation with the optional camera pair and the missing file value as its last
  element. It is not a string.
\<close>

theorem maya_missing_file:
  assumes "layerType l \<notin> set (FROM_CONFIG_FILE J)"
    and "layerType l = MAYA J"
    and "\<not> py_truthy (cmd_get (cmd l) ''mayaFile'' PNone)"
  shows "buildLayerCommand J C l False =
           Inl (ValueError ''No Maya File provided. Cannot submit job.'') \<and>
         buildLayerCommand J C l True =
           Inr (CmdList
             ([PStr (MAYA_RENDER_CMD C), PStr ''-r'', PStr ''file'', PStr ''-s'',
               PStr (FRAME_START_TOKEN C), PStr ''-e'', PStr (FRAME_END_TOKEN C)]
              @ (if py_truthy (cmd_get (cmd l) ''camera'' PNone)
                 then [PStr ''-cam'', cmd_get (cmd l) ''camera'' PNone] else [])
              @ [cmd_get (cmd l) ''mayaFile'' PNone]))"
  using assms by (simp add: buildLayerCommand_def buildMayaCmd_def Let_def)

theorem maya_missing_file_witness:
  "buildLayerCommand cfgJobTypes cfgConstants
     (mkLayer ''beauty'' ''Maya'' [(Name ''camera'', PStr ''persp'')] ''1-10'' PNone) False =
     Inl (ValueError ''No Maya File provided. Cannot submit job.'') \<and>
   buildLayerCommand cfgJobTypes cfgConstants
     (mkLayer ''beauty'' ''Maya'' [(Name ''camera'', PStr ''persp'')] ''1-10'' PNone) True =
     Inr (CmdList [PStr ''Render'', PStr ''-r'', PStr ''file'', PStr ''-s'', PStr ''#FRAME_START#'',
                   PStr ''-e'', PStr ''#FRAME_END#'', PStr ''-cam'', PStr ''persp'', PNone])"
  using maya_missing_file [of "mkLayer ''beauty'' ''Maya'' [(Name ''camera'', PStr ''persp'')] ''1-10'' PNone"
      cfgJobTypes cfgConstants]
  by (simp add: cfg_defs cmd_get_def)

text \<open>
  The claim as stated promises a diagnostic string in silent mode. A Maya layer with an
  empty \<^verbatim>\<open>mayaFile\<close> gets a list of eight arguments, the last one the empty string.
\<close>

theorem maya_silent_counterexample:
  "buildLayerCommand cfgJobTypes cfgConstants
     (mkLayer ''beauty'' ''Maya'' [(Name ''mayaFile'', PStr [])] ''1-10'' PNone) True =
     Inr (CmdList [PStr ''Render'', PStr ''-r'', PStr ''file'', PStr ''-s'', PStr ''#FRAME_START#'',
                   PStr ''-e'', PStr ''#FRAME_END#'', PStr []]) \<and>
   \<not> (\<exists>s. buildLayerCommand cfgJobTypes cfgConstants
     (mkLayer ''beauty'' ''Maya'' [(Name ''mayaFile'', PStr [])] ''1-10'' PNone) True = Inr (CmdStr s))"
  by (simp add: cfg_defs buildLayerCommand_def buildMayaCmd_def cmd_get_def)

subsection \<open>C2: the threadable flag\<close>



subsection \<open>C3: dependency edges\<close>

text \<open>
  C3. The layer built by \<^verbatim>\<open>buildLayer\<close> has a dependency edge iff \<^verbatim>\<open>dependType\<close> is truthy
  and a previous layer is given; the edge is layer-on-layer (\<^verbatim>\<open>depend_all\<close>) when
  \<^verbatim>\<open>dependType\<close> is the string \<^verbatim>\<open>Layer\<close> and frame-by-frame (\<^verbatim>\<open>depend_on\<close>) for any other
  truthy value, and it points to the given previous layer. In the job handed to the
  submission interface there is one layer per layer description, in order; the first
  has no edge whatever its \<^verbatim>\<open>dependType\<close>, and the only edge of a later layer points
  to the layer just before it.
\<close>

theorem dependency_edges:
  "(\<forall>layer. buildLayer U l c prev = Inr layer \<longrightarrow>
      shell_depends layer =
        (case prev of
           None \<Rightarrow> []
         | Some p \<Rightarrow>
             if py_truthy (dependType l)
             then [(if dependType l = PStr ''Layer'' then LayerOnLayer else FrameByFrame, p)]
             else [])) \<and>
   (\<forall>ol. snd (submitJob U J C launch jd launched) = launched @ [ol] \<longrightarrow>
      length (ol_layers ol) = length (job_layers jd) \<and>
      (\<forall>i<length (job_layers jd).
         shell_depends (ol_layers ol ! i) =
           (if py_truthy (dependType (job_layers jd ! i)) \<and> 0 < i
            then [(if dependType (job_layers jd ! i) = PStr ''Layer'' then LayerOnLayer
                   else FrameByFrame, ol_layers ol ! (i - 1))]
            else [])))"
proof (intro conjI allI impI)
  fix layer assume "buildLayer U l c prev = Inr layer"
  then show "shell_depends layer =
        (case prev of
           None \<Rightarrow> []
         | Some p \<Rightarrow>
             if py_truthy (dependType l)
             then [(if dependType l = PStr ''Layer'' then LayerOnLayer else FrameByFrame, p)]
             else [])"
    by (rule buildLayer_depends)
next
  fix ol assume s: "snd (submitJob U J C launch jd launched) = launched @ [ol]"
  define ol0 where "ol0 = \<lparr>ol_name = job_name jd, ol_shot = job_shot jd,
                ol_show = job_show jd, ol_user = job_username jd,
                ol_layers = [], ol_facility = None\<rparr>"
  from s obtain ol1 where
    l: "layerLoop U J C (job_layers jd) None ol0 = Inr ol1" and
    o: "ol_layers ol = ol_layers ol1"
    by (auto simp: submitJob_def ol0_def Let_def split: sum.splits option.splits)
  from layerLoop_layers[OF l] obtain new where
    n1: "ol1 = ol0\<lparr>ol_layers := ol_layers ol0 @ new\<rparr>" and
    n2: "length new = length (job_layers jd)" and
    n3: "\<forall>i<length (job_layers jd). shell_depends (new ! i) =
        (case (if i = 0 then None else Some (new ! (i - 1))) of
           None \<Rightarrow> []
         | Some p \<Rightarrow>
             if py_truthy (dependType (job_layers jd ! i))
             then [(if dependType (job_layers jd ! i) = PStr ''Layer'' then LayerOnLayer
                    else FrameByFrame, p)]
             else [])"
    by blast
  have e: "ol_layers ol = new" using o n1 by (simp add: ol0_def)
  show "length (ol_layers ol) = length (job_layers jd)" using e n2 by simp
  fix i assume "i < length (job_layers jd)"
  with n3 show "shell_depends (ol_layers ol ! i) =
           (if py_truthy (dependType (job_layers jd ! i)) \<and> 0 < i
            then [(if dependType (job_layers jd ! i) = PStr ''Layer'' then LayerOnLayer
                   else FrameByFrame, ol_layers ol ! (i - 1))]
            else [])"
    unfolding e by (cases i) auto
qed

theorem dependency_edges_witness:
  "(\<exists>ol. snd (submitJob cfgUtil cfgJobTypes cfgConstants exLaunch (exJob threeLayers) []) = [ol] \<and>
     length (ol_layers ol) = 3 \<and>
     shell_depends (ol_layers ol ! 0) = [] \<and>
     shell_depends (ol_layers ol ! 1) = [(LayerOnLayer, ol_layers ol ! 0)] \<and>
     shell_depends (ol_layers ol ! 2) = []) \<and>
   (\<exists>layer. buildLayer cfgUtil (mkLayer ''two'' ''Shell'' [] ''1-5'' (PStr ''Layer''))
       (CmdList [PStr ''ls'']) None = Inr layer \<and> shell_depends layer = []) \<and>
   (\<exists>layer. buildLayer cfgUtil (mkLayer ''two'' ''Shell'' [] ''1-5'' (PStr ''Frame''))
       (CmdList [PStr ''ls''])
       (Some (Shell ''one'' [PStr ''ls''] 1 None ''1-5'' False None [] [])) = Inr layer \<and>
     shell_depends layer =
       [(FrameByFrame, Shell ''one'' [PStr ''ls''] 1 None ''1-5'' False None [] [])])"
proof -
  obtain ol where
    s: "snd (submitJob cfgUtil cfgJobTypes cfgConstants exLaunch (exJob threeLayers) []) = [] @ [ol]"
    by (simp add: submitJob_def exJob_def threeLayers_def cfg_defs buildLayerCommand_def
          buildShellCmd_def cmd_item_def shell_echo buildLayer_def command_tokens_def
          resolveThreadable_def add_layer_def Let_def)
  from dependency_edges [where U = cfgUtil and J = cfgJobTypes and C = cfgConstants
      and launch = exLaunch and jd = "exJob threeLayers" and launched = "[]"] s
  have "length (ol_layers ol) = length (job_layers (exJob threeLayers)) \<and>
      (\<forall>i<length (job_layers (exJob threeLayers)).
         shell_depends (ol_layers ol ! i) =
           (if py_truthy (dependType (job_layers (exJob threeLayers) ! i)) \<and> 0 < i
            then [(if dependType (job_layers (exJob threeLayers) ! i) = PStr ''Layer''
                   then LayerOnLayer else FrameByFrame, ol_layers ol ! (i - 1))]
            else []))"
    by blast
  then have "length (ol_layers ol) = 3 \<and>
     shell_depends (ol_layers ol ! 0) = [] \<and>
     shell_depends (ol_layers ol ! 1) = [(LayerOnLayer, ol_layers ol ! 0)] \<and>
     shell_depends (ol_layers ol ! 2) = []"
    by (simp add: exJob_def threeLayers_def mkLayer_def)
  with s have j: "\<exists>ol. snd (submitJob cfgUtil cfgJobTypes cfgConstants exLaunch
        (exJob threeLayers) []) = [ol] \<and>
     length (ol_layers ol) = 3 \<and>
     shell_depends (ol_layers ol ! 0) = [] \<and>
     shell_depends (ol_layers ol ! 1) = [(LayerOnLayer, ol_layers ol ! 0)] \<and>
     shell_depends (ol_layers ol ! 2) = []"
    by auto
  have n: "\<exists>layer. buildLayer cfgUtil (mkLayer ''two'' ''Shell'' [] ''1-5'' (PStr ''Layer''))
       (CmdList [PStr ''ls'']) None = Inr layer \<and> shell_depends layer = []"
    using dependency_edges [where U = cfgUtil and c = "CmdList [PStr ''ls'']" and prev = None
      and l = "mkLayer ''two'' ''Shell'' [] ''1-5'' (PStr ''Layer'')"]
    by (simp add: cfg_defs buildLayer_def command_tokens_def resolveThreadable_def)
  have f: "\<exists>layer. buildLayer cfgUtil (mkLayer ''two'' ''Shell'' [] ''1-5'' (PStr ''Frame''))
       (CmdList [PStr ''ls''])
       (Some (Shell ''one'' [PStr ''ls''] 1 None ''1-5'' False None [] [])) = Inr layer \<and>
     shell_depends layer =
       [(FrameByFrame, Shell ''one'' [PStr ''ls''] 1 None ''1-5'' False None [] [])]"
    using dependency_edges [where U = cfgUtil and c = "CmdList [PStr ''ls'']"
      and prev = "Some (Shell ''one'' [PStr ''ls''] 1 None ''1-5'' False None [] [])"
      and l = "mkLayer ''two'' ''Shell'' [] ''1-5'' (PStr ''Frame'')"]
    by (simp add: cfg_defs buildLayer_def command_tokens_def resolveThreadable_def)
  from j n f show ?thesis by blast
qed

subsection \<open>C4: no submission after a failed build\<close>

text \<open>
  C4. If \<^verbatim>\<open>buildLayerCommand\<close> raises for any layer of the job, \<^verbatim>\<open>submitJob\<close> raises and
  the submission interface is not called. No run of \<^verbatim>\<open>submitJob\<close> calls it more than
  once, and a run that returns normally has called it exactly once and returns what
  that call returned.
\<close>

theorem submit_aborts_or_launches_once:
  "((\<exists>ld\<in>set (job_layers jd). isl (buildLayerCommand J C ld False)) \<longrightarrow>
      isl (fst (submitJob U J C launch jd launched)) \<and>
      snd (submitJob U J C launch jd launched) = launched) \<and>
   (snd (submitJob U J C launch jd launched) = launched \<or>
    (\<exists>ol. snd (submitJob U J C launch jd launched) = launched @ [ol] \<and>
          fst (submitJob U J C launch jd launched) = launch ol)) \<and>
   (\<forall>h. fst (submitJob U J C launch jd launched) = Inr h \<longrightarrow>
      (\<exists>ol. snd (submitJob U J C launch jd launched) = launched @ [ol] \<and> launch ol = Inr h))"
proof (intro conjI allI impI)
  assume "\<exists>ld\<in>set (job_layers jd). isl (buildLayerCommand J C ld False)"
  then obtain ld where "ld \<in> set (job_layers jd)" "isl (buildLayerCommand J C ld False)"
    by blast
  then have "isl (layerLoop U J C (job_layers jd) None
      \<lparr>ol_name = job_name jd, ol_shot = job_shot jd, ol_show = job_show jd,
       ol_user = job_username jd, ol_layers = [], ol_facility = None\<rparr>)"
    by (rule layerLoop_command_fails)
  then obtain e where "layerLoop U J C (job_layers jd) None
      \<lparr>ol_name = job_name jd, ol_shot = job_shot jd, ol_show = job_show jd,
       ol_user = job_username jd, ol_layers = [], ol_facility = None\<rparr> = Inl e"
    by (auto simp: isl_def)
  then show "isl (fst (submitJob U J C launch jd launched))"
    and "snd (submitJob U J C launch jd launched) = launched"
    by (simp_all add: submitJob_def)
next
  obtain r launched' where s: "submitJob U J C launch jd launched = (r, launched')"
    by (cases "submitJob U J C launch jd launched")
  from submitJob_cases[OF s] s
  show "snd (submitJob U J C launch jd launched) = launched \<or>
    (\<exists>ol. snd (submitJob U J C launch jd launched) = launched @ [ol] \<and>
          fst (submitJob U J C launch jd launched) = launch ol)"
    by auto
next
  fix h assume h: "fst (submitJob U J C launch jd launched) = Inr h"
  obtain r launched' where s: "submitJob U J C launch jd launched = (r, launched')"
    by (cases "submitJob U J C launch jd launched")
  from submitJob_cases[OF s] s h
  show "\<exists>ol. snd (submitJob U J C launch jd launched) = launched @ [ol] \<and> launch ol = Inr h"
    by auto
qed

theorem submit_aborts_or_launches_once_witness:
  "submitJob cfgUtil cfgJobTypes cfgConstants exLaunch (exJob brokenLayers) [] =
     (Inl (ValueError ''No Maya File provided. Cannot submit job.''), []) \<and>
   submitJob cfgUtil cfgJobTypes cfgConstants exLaunch (exJob unknownLayers) [] =
     (Inl (ValueError ''unrecognized layer type Katana''), []) \<and>
   fst (submitJob cfgUtil cfgJobTypes cfgConstants exLaunch (exJob threeLayers) []) = Inr 3 \<and>
   length (snd (submitJob cfgUtil cfgJobTypes cfgConstants exLaunch (exJob threeLayers) [])) = 1"
proof -
  have b: "\<exists>ld\<in>set (job_layers (exJob brokenLayers)).
             isl (buildLayerCommand cfgJobTypes cfgConstants ld False)"
    by (simp add: exJob_def brokenLayers_def cfg_defs buildLayerCommand_def buildMayaCmd_def
          cmd_get_def)
  have u: "\<exists>ld\<in>set (job_layers (exJob unknownLayers)).
             isl (buildLayerCommand cfgJobTypes cfgConstants ld False)"
    by (simp add: exJob_def unknownLayers_def cfg_defs buildLayerCommand_def)
  have t: "fst (submitJob cfgUtil cfgJobTypes cfgConstants exLaunch (exJob threeLayers) []) = Inr 3"
    by (simp add: submitJob_def exJob_def threeLayers_def cfg_defs buildLayerCommand_def
          buildShellCmd_def cmd_item_def shell_echo buildLayer_def command_tokens_def
          resolveThreadable_def add_layer_def Let_def exLaunch_def)
  have b': "snd (submitJob cfgUtil cfgJobTypes cfgConstants exLaunch (exJob brokenLayers) []) = []"
    using submit_aborts_or_launches_once
      [of "exJob brokenLayers" cfgJobTypes cfgConstants cfgUtil exLaunch "[]"] b by blast
  have u': "snd (submitJob cfgUtil cfgJobTypes cfgConstants exLaunch (exJob unknownLayers) []) = []"
    using submit_aborts_or_launches_once
      [of "exJob unknownLayers" cfgJobTypes cfgConstants cfgUtil exLaunch "[]"] u by blast
  have t': "length (snd (submitJob cfgUtil cfgJobTypes cfgConstants exLaunch (exJob threeLayers) [])) = 1"
    using submit_aborts_or_launches_once
      [of "exJob threeLayers" cfgJobTypes cfgConstants cfgUtil exLaunch "[]"] t by auto
  have b'': "fst (submitJob cfgUtil cfgJobTypes cfgConstants exLaunch (exJob brokenLayers) []) =
      Inl (ValueError ''No Maya File provided. Cannot submit job.'')"
    by (simp add: submitJob_def exJob_def brokenLayers_def cfg_defs buildLayerCommand_def
          buildShellCmd_def cmd_item_def shell_echo buildLayer_def command_tokens_def
          resolveThreadable_def add_layer_def Let_def buildMayaCmd_def cmd_get_def)
  have u'': "fst (submitJob cfgUtil cfgJobTypes cfgConstants exLaunch (exJob unknownLayers) []) =
      Inl (ValueError ''unrecognized layer type Katana'')"
    by (simp add: submitJob_def exJob_def unknownLayers_def cfg_defs buildLayerCommand_def Let_def)
  from b' b'' u' u'' t t' show ?thesis
    by (simp add: prod_eq_iff)
qed

subsection \<open>C5: a mandatory flag without a value\<close>

text \<open>
  C5 (as amended). For a mandatory flag whose value is the empty string or \<^verbatim>\<open>None\<close>,
  \<^verbatim>\<open>formatValue\<close> returns exactly \<^verbatim>\<open>!!missing value for <flag>!!\<close> and raises nothing.
  When the token is not a solo flag, the loop body of \<^verbatim>\<open>buildDynamicCmd\<close>, and so the
  builder on a mapping that ends with this entry, appends the sentinel to the command:
  after the flag when the token is a flag, alone otherwise. When the token is a solo
  flag the builder appends the flag text only and no sentinel.
\<close>

theorem mandatory_missing_value:
  assumes "v = PStr [] \<or> v = PNone"
  shows "formatValue flag v isPath True = PStr (''!!missing value for '' @ flag @ ''!!'') \<and>
    (\<not> isSoloFlag flag \<longrightarrow>
       dynamicStep renderCommand (Flag flag isPath True, v) =
         Inr (renderCommand @ '' '' @ (if isFlag flag then flag @ '' '' else [])
              @ ''!!missing value for '' @ flag @ ''!!'') \<and>
       buildDynamicCmd C (l\<lparr>cmd := items @ [(Flag flag isPath True, v)]\<rparr>) =
         (case buildDynamicCmd C (l\<lparr>cmd := items\<rparr>) of
            Inl e \<Rightarrow> Inl e
          | Inr s \<Rightarrow> Inr (s @ '' '' @ (if isFlag flag then flag @ '' '' else [])
                          @ ''!!missing value for '' @ flag @ ''!!''))) \<and>
    (isSoloFlag flag \<longrightarrow>
       dynamicStep renderCommand (Flag flag isPath True, v) =
         Inr (renderCommand @ '' '' @ butlast flag))"
proof -
  from assms have e: "in_empty_or_None v" by (auto simp: in_empty_or_None_def)
  note f = formatValue_missing[OF e, of flag isPath]
  have s: "dynamicStep acc (Flag flag isPath True, v) =
         Inr (acc @ '' '' @ (if isFlag flag then flag @ '' '' else [])
              @ ''!!missing value for '' @ flag @ ''!!'')" if "\<not> isSoloFlag flag" for acc
    using that by (simp add: dynamicStep_def f in_empty_or_None_def)
  show ?thesis
    using f s by (simp add: buildDynamicCmd_snoc dynamicStep_solo split: sum.splits)
qed

theorem mandatory_missing_value_witness:
  "formatValue ''--scene'' PNone True True = PStr ''!!missing value for --scene!!'' \<and>
   buildDynamicCmd cfgConstants
     (mkLayer ''h'' ''Houdini'' [(Flag ''-v'' False False, PStr ''2''),
        (Flag ''--scene'' True True, PNone)] ''1-5'' PNone) =
     Inr ''hrender -v 2 --scene !!missing value for --scene!!'' \<and>
   buildDynamicCmd cfgConstants
     (mkLayer ''h'' ''Houdini'' [(Flag ''-v'' False False, PStr ''2''),
        (Flag ''scene file'' False True, PStr [])] ''1-5'' PNone) =
     Inr ''hrender -v 2 !!missing value for scene file!!''"
proof -
  have a: "\<not> isSoloFlag ''--scene''" "isFlag ''--scene''"
    "\<not> isSoloFlag ''scene file''" "\<not> isFlag ''scene file''"
    "\<not> isSoloFlag ''-v''" "isFlag ''-v''"
    by (simp_all add: isSoloFlag_def isFlag_def is_dash_def is_word_def at_dollar_def)
  have b: "buildDynamicCmd cfgConstants
       ((mkLayer ''h'' ''Houdini'' [] ''1-5'' PNone)\<lparr>cmd := [(Flag ''-v'' False False, PStr ''2'')]\<rparr>) =
     Inr ''hrender -v 2''"
    by (simp add: cfg_defs buildDynamicCmd_def dynamicStep_def a formatValue_def
          in_empty_or_None_def)
  have c: "mkLayer ''h'' ''Houdini'' (items @ [x]) ''1-5'' PNone =
      (mkLayer ''h'' ''Houdini'' [] ''1-5'' PNone)\<lparr>cmd := items @ [x]\<rparr>" for items x
    by (simp add: mkLayer_def)
  show ?thesis
    using
      mandatory_missing_value [where v = PNone and flag = "''--scene''" and isPath = True
        and C = cfgConstants and l = "mkLayer ''h'' ''Houdini'' [] ''1-5'' PNone"
        and items = "[(Flag ''-v'' False False, PStr ''2'')]" and renderCommand = "[]"]
      mandatory_missing_value [where v = "PStr []" and flag = "''scene file''" and isPath = False
        and C = cfgConstants and l = "mkLayer ''h'' ''Houdini'' [] ''1-5'' PNone"
        and items = "[(Flag ''-v'' False False, PStr ''2'')]" and renderCommand = "[]"]
      a b c [of "[(Flag ''-v'' False False, PStr ''2'')]"]
    by simp
qed

text \<open>
  The claim as stated has the sentinel appended for every token. The mandatory solo
  flag \<^verbatim>\<open>--bg~\<close> with an empty value is not a plain flag, its formatted value is the
  sentinel, and the command built holds the bare flag and no sentinel.
\<close>

theorem mandatory_solo_counterexample:
  "\<not> isFlag ''--bg~'' \<and>
   formatValue ''--bg~'' (PStr []) False True = PStr ''!!missing value for --bg~!!'' \<and>
   buildDynamicCmd cfgConstants
     (mkLayer ''h'' ''Houdini'' [(Flag ''--bg~'' False True, PStr [])] ''1-5'' PNone) =
     Inr ''hrender --bg'' \<and>
   buildDynamicCmd cfgConstants
     (mkLayer ''h'' ''Houdini'' [(Flag ''--bg~'' False True, PStr [])] ''1-5'' PNone) \<noteq>
     Inr ''hrender !!missing value for --bg~!!''"
  by (simp add: cfg_defs buildDynamicCmd_def dynamicStep_def formatValue_def
        in_empty_or_None_def isSoloFlag_def isFlag_def is_dash_def is_word_def at_dollar_def)

subsection \<open>C6: the frame flags of the Blender builder\<close>

text \<open>
  C6 (as amended). Whenever \<^verbatim>\<open>buildBlenderCmd\<close> returns a list, the list is a head followed
  by the frame flags: \<^verbatim>\<open>-s\<close>, the start placeholder, \<^verbatim>\<open>-e\<close>, the end placeholder and \<^verbatim>\<open>-a\<close>
  when \<^verbatim>\<open>layerRange\<close> matches \<^verbatim>\<open>^\d+-\d+$\<close> (Python's \<^verbatim>\<open>$\<close> also accepts one newline at the
  end), and \<^verbatim>\<open>-f\<close> with the frame placeholder otherwise. Every element of the head is
  one of the fixed flags \<^verbatim>\<open>-b\<close>, \<^verbatim>\<open>-noaudio\<close>, \<^verbatim>\<open>--use-compositing\<close>, \<^verbatim>\<open>-o\<close>, \<^verbatim>\<open>-F\<close> or one of
  the layer's own values (executable, file, output path, output format): the builder
  puts no \<^verbatim>\<open>-f\<close> in front of the range flags and no \<^verbatim>\<open>-s\<close>, \<^verbatim>\<open>-e\<close>, \<^verbatim>\<open>-a\<close> in front of the
  frame flag, while a value of the layer can be any of these strings.
\<close>

theorem blender_frame_flags:
  assumes "buildBlenderCmd C l silent = Inr args"
  shows "\<exists>head.
     args = head @ (if isFrameSpan (layerRange l)
                    then [PStr ''-s'', PStr (FRAME_START_TOKEN C), PStr ''-e'',
                          PStr (FRAME_END_TOKEN C), PStr ''-a'']
                    else [PStr ''-f'', PStr (FRAME_TOKEN C)]) \<and>
     set head \<subseteq>
       {PStr ''-b'', PStr ''-noaudio'', PStr ''--use-compositing'', PStr ''-o'', PStr ''-F'',
        cmd_get (cmd l) ''blenderExecutable'' (PStr (BLENDER_RENDER_CMD C)),
        cmd_get (cmd l) ''blenderFile'' PNone,
        cmd_get (cmd l) ''outputPath'' PNone,
        cmd_get (cmd l) ''outputFormat'' PNone}"
proof -
  define head where "head =
     [cmd_get (cmd l) ''blenderExecutable'' (PStr (BLENDER_RENDER_CMD C)), PStr ''-b'',
      PStr ''-noaudio'', cmd_get (cmd l) ''blenderFile'' PNone]
     @ (if py_truthy (cmd_get (cmd l) ''useCompositing'' (PBool True))
        then [PStr ''--use-compositing''] else [])
     @ (if py_truthy (cmd_get (cmd l) ''outputPath'' PNone)
        then [PStr ''-o'', cmd_get (cmd l) ''outputPath'' PNone] else [])
     @ (if py_truthy (cmd_get (cmd l) ''outputFormat'' PNone)
        then [PStr ''-F'', cmd_get (cmd l) ''outputFormat'' PNone] else [])"
  have "args = head @ (if isFrameSpan (layerRange l)
                    then [PStr ''-s'', PStr (FRAME_START_TOKEN C), PStr ''-e'',
                          PStr (FRAME_END_TOKEN C), PStr ''-a'']
                    else [PStr ''-f'', PStr (FRAME_TOKEN C)])"
    using assms by (auto simp: buildBlenderCmd_def Let_def head_def split: if_splits)
  moreover have "set head \<subseteq>
       {PStr ''-b'', PStr ''-noaudio'', PStr ''--use-compositing'', PStr ''-o'', PStr ''-F'',
        cmd_get (cmd l) ''blenderExecutable'' (PStr (BLENDER_RENDER_CMD C)),
        cmd_get (cmd l) ''blenderFile'' PNone,
        cmd_get (cmd l) ''outputPath'' PNone,
        cmd_get (cmd l) ''outputFormat'' PNone}"
    by (auto simp: head_def)
  ultimately show ?thesis by blast
qed

theorem blender_frame_flags_witness:
  "buildBlenderCmd cfgConstants
      (mkLayer ''b'' ''Blender'' [(Name ''blenderFile'', PStr ''scene.blend'')] ''1-100'' PNone)
      False =
     Inr [PStr ''blender'', PStr ''-b'', PStr ''-noaudio'', PStr ''scene.blend'',
          PStr ''--use-compositing'', PStr ''-s'', PStr ''#FRAME_START#'', PStr ''-e'',
          PStr ''#FRAME_END#'', PStr ''-a''] \<and>
   (\<exists>head. [PStr ''blender'', PStr ''-b'', PStr ''-noaudio'', PStr ''scene.blend'',
             PStr ''--use-compositing'', PStr ''-s'', PStr ''#FRAME_START#'', PStr ''-e'',
             PStr ''#FRAME_END#'', PStr ''-a''] =
            head @ [PStr ''-s'', PStr ''#FRAME_START#'', PStr ''-e'', PStr ''#FRAME_END#'',
                    PStr ''-a''] \<and>
      set head \<subseteq> {PStr ''-b'', PStr ''-noaudio'', PStr ''--use-compositing'', PStr ''-o'',
                    PStr ''-F'', PStr ''blender'', PStr ''scene.blend'', PNone}) \<and>
   buildBlenderCmd cfgConstants
      (mkLayer ''b'' ''Blender'' [(Name ''blenderFile'', PStr ''scene.blend'')] ''50'' PNone)
      False =
     Inr [PStr ''blender'', PStr ''-b'', PStr ''-noaudio'', PStr ''scene.blend'',
          PStr ''--use-compositing'', PStr ''-f'', PStr ''#IFRAME#''] \<and>
   (\<exists>head. [PStr ''blender'', PStr ''-b'', PStr ''-noaudio'', PStr ''scene.blend'',
             PStr ''--use-compositing'', PStr ''-f'', PStr ''#IFRAME#''] =
            head @ [PStr ''-f'', PStr ''#IFRAME#''] \<and>
      set head \<subseteq> {PStr ''-b'', PStr ''-noaudio'', PStr ''--use-compositing'', PStr ''-o'',
                    PStr ''-F'', PStr ''blender'', PStr ''scene.blend'', PNone})"
proof -
  have s: "isFrameSpan ''1-100''" "\<not> isFrameSpan ''50''"
    by (simp_all add: isFrameSpan_def is_digit_def at_dollar_def)
  have a: "buildBlenderCmd cfgConstants
      (mkLayer ''b'' ''Blender'' [(Name ''blenderFile'', PStr ''scene.blend'')] ''1-100'' PNone)
      False =
     Inr [PStr ''blender'', PStr ''-b'', PStr ''-noaudio'', PStr ''scene.blend'',
          PStr ''--use-compositing'', PStr ''-s'', PStr ''#FRAME_START#'', PStr ''-e'',
          PStr ''#FRAME_END#'', PStr ''-a'']"
    by (simp add: cfg_defs buildBlenderCmd_def cmd_get_def s)
  have b: "buildBlenderCmd cfgConstants
      (mkLayer ''b'' ''Blender'' [(Name ''blenderFile'', PStr ''scene.blend'')] ''50'' PNone)
      False =
     Inr [PStr ''blender'', PStr ''-b'', PStr ''-noaudio'', PStr ''scene.blend'',
          PStr ''--use-compositing'', PStr ''-f'', PStr ''#IFRAME#'']"
    by (simp add: cfg_defs buildBlenderCmd_def cmd_get_def s)
  show ?thesis
    using blender_frame_flags [OF a] blender_frame_flags [OF b] a b s
    by (simp add: cfg_defs cmd_get_def insert_commute)
qed

text \<open>
  The claim as stated has no \<^verbatim>\<open>-f\<close> anywhere in the list of a ranged layer. A layer whose
  output path is the string \<^verbatim>\<open>-f\<close> has it, after \<^verbatim>\<open>-o\<close>.
\<close>

theorem blender_user_value_counterexample:
  "isFrameSpan ''1-100'' \<and>
   buildBlenderCmd cfgConstants
      (mkLayer ''b'' ''Blender''
         [(Name ''blenderFile'', PStr ''scene.blend''), (Name ''outputPath'', PStr ''-f'')]
         ''1-100'' PNone) False =
     Inr [PStr ''blender'', PStr ''-b'', PStr ''-noaudio'', PStr ''scene.blend'',
          PStr ''--use-compositing'', PStr ''-o'', PStr ''-f'', PStr ''-s'',
          PStr ''#FRAME_START#'', PStr ''-e'', PStr ''#FRAME_END#'', PStr ''-a''] \<and>
   PStr ''-f'' \<in> set [PStr ''blender'', PStr ''-b'', PStr ''-noaudio'', PStr ''scene.blend'',
          PStr ''--use-compositing'', PStr ''-o'', PStr ''-f'', PStr ''-s'',
          PStr ''#FRAME_START#'', PStr ''-e'', PStr ''#FRAME_END#'', PStr ''-a'']"
  by (simp add: cfg_defs buildBlenderCmd_def cmd_get_def isFrameSpan_def is_digit_def
        at_dollar_def)

subsection \<open>C7: solo flags\<close>

text \<open>
  C7. For a token that \<^verbatim>\<open>isSoloFlag\<close> accepts, the loop body of \<^verbatim>\<open>buildDynamicCmd\<close>, and so
  the builder on a mapping that ends with this entry, appends a blank and the token
  without its last character, whatever the value, the path mark and the mandatory mark
  are. A token made of one or more dashes, then one or more word characters, then a
  tilde is accepted by \<^verbatim>\<open>isSoloFlag\<close>, and what is appended for it is the token with the
  tilde stripped.
\<close>

theorem solo_flag_ignores_value:
  "(isSoloFlag flag \<longrightarrow>
      dynamicStep renderCommand (Flag flag isPath isMandatory, v) =
        Inr (renderCommand @ '' '' @ butlast flag) \<and>
      buildDynamicCmd C (l\<lparr>cmd := items @ [(Flag flag isPath isMandatory, v)]\<rparr>) =
        (case buildDynamicCmd C (l\<lparr>cmd := items\<rparr>) of
           Inl e \<Rightarrow> Inl e
         | Inr s \<Rightarrow> Inr (s @ '' '' @ butlast flag))) \<and>
   (dashes \<noteq> [] \<and> (\<forall>c\<in>set dashes. c = CHR ''-'') \<and> word \<noteq> [] \<and>
    (\<forall>c\<in>set word. is_word c) \<and> flag = dashes @ word @ ''~'' \<longrightarrow>
      isSoloFlag flag \<and>
      dynamicStep renderCommand (Flag flag isPath isMandatory, v) =
        Inr (renderCommand @ '' '' @ dashes @ word) \<and>
      buildDynamicCmd C (l\<lparr>cmd := items @ [(Flag flag isPath isMandatory, v)]\<rparr>) =
        (case buildDynamicCmd C (l\<lparr>cmd := items\<rparr>) of
           Inl e \<Rightarrow> Inl e
         | Inr s \<Rightarrow> Inr (s @ '' '' @ dashes @ word)))"
proof (intro conjI impI)
  assume s: "isSoloFlag flag"
  show "dynamicStep renderCommand (Flag flag isPath isMandatory, v) =
        Inr (renderCommand @ '' '' @ butlast flag)"
    by (rule dynamicStep_solo[OF s])
  show "buildDynamicCmd C (l\<lparr>cmd := items @ [(Flag flag isPath isMandatory, v)]\<rparr>) =
        (case buildDynamicCmd C (l\<lparr>cmd := items\<rparr>) of
           Inl e \<Rightarrow> Inl e
         | Inr s \<Rightarrow> Inr (s @ '' '' @ butlast flag))"
    by (simp add: buildDynamicCmd_snoc dynamicStep_solo[OF s] split: sum.splits)
next
  assume a: "dashes \<noteq> [] \<and> (\<forall>c\<in>set dashes. c = CHR ''-'') \<and> word \<noteq> [] \<and>
    (\<forall>c\<in>set word. is_word c) \<and> flag = dashes @ word @ ''~''"
  then have s: "isSoloFlag flag"
    by (simp add: isSoloFlag_shape)
  from a have b: "butlast flag = dashes @ word"
    by (simp add: butlast_append)
  show "isSoloFlag flag" by (rule s)
  show "dynamicStep renderCommand (Flag flag isPath isMandatory, v) =
        Inr (renderCommand @ '' '' @ dashes @ word)"
    using dynamicStep_solo[OF s, of renderCommand isPath isMandatory v] b by simp
  show "buildDynamicCmd C (l\<lparr>cmd := items @ [(Flag flag isPath isMandatory, v)]\<rparr>) =
        (case buildDynamicCmd C (l\<lparr>cmd := items\<rparr>) of
           Inl e \<Rightarrow> Inl e
         | Inr s \<Rightarrow> Inr (s @ '' '' @ dashes @ word))"
    using b by (simp add: buildDynamicCmd_snoc dynamicStep_solo[OF s] split: sum.splits)
qed

theorem solo_flag_ignores_value_witness:
  "isSoloFlag ''--background~'' \<and>
   buildDynamicCmd cfgConstants
     (mkLayer ''h'' ''Houdini'' [(Flag ''-v'' False False, PStr ''2''),
        (Flag ''--background~'' True True, PStr ''ignored value'')] ''1-5'' PNone) =
     Inr ''hrender -v 2 --background'' \<and>
   buildDynamicCmd cfgConstants
     (mkLayer ''h'' ''Houdini'' [(Flag ''-v'' False False, PStr ''2''),
        (Flag ''--background~'' False False, PNone)] ''1-5'' PNone) =
     Inr ''hrender -v 2 --background''"
proof -
  have w: "\<forall>c\<in>set ''background''. is_word c" by (simp add: is_word_def)
  have a: "\<not> isSoloFlag ''-v''" "isFlag ''-v''"
    by (simp_all add: isSoloFlag_def isFlag_def is_dash_def is_word_def at_dollar_def)
  have b: "buildDynamicCmd cfgConstants
       ((mkLayer ''h'' ''Houdini'' [] ''1-5'' PNone)\<lparr>cmd := [(Flag ''-v'' False False, PStr ''2'')]\<rparr>) =
     Inr ''hrender -v 2''"
    by (simp add: cfg_defs buildDynamicCmd_def dynamicStep_def a formatValue_def
          in_empty_or_None_def)
  have c: "mkLayer ''h'' ''Houdini'' (items @ [x]) ''1-5'' PNone =
      (mkLayer ''h'' ''Houdini'' [] ''1-5'' PNone)\<lparr>cmd := items @ [x]\<rparr>" for items x
    by (simp add: mkLayer_def)
  show ?thesis
    using
      solo_flag_ignores_value [where dashes = "''--''" and word = "''background''"
        and flag = "''--background~''"
        and isPath = True and isMandatory = True and v = "PStr ''ignored value''"
        and C = cfgConstants and l = "mkLayer ''h'' ''Houdini'' [] ''1-5'' PNone"
        and items = "[(Flag ''-v'' False False, PStr ''2'')]" and renderCommand = "[]"]
      solo_flag_ignores_value [where dashes = "''--''" and word = "''background''"
        and flag = "''--background~''"
        and isPath = False and isMandatory = False and v = PNone
        and C = cfgConstants and l = "mkLayer ''h'' ''Houdini'' [] ''1-5'' PNone"
        and items = "[(Flag ''-v'' False False, PStr ''2'')]" and renderCommand = "[]"]
      w b c [of "[(Flag ''-v'' False False, PStr ''2'')]"]
    by simp
qed

subsection \<open>C8: a shell command with quoted arguments\<close>

text \<open>
  C8. For a layer that dispatches to the shell branch and whose \<^verbatim>\<open>commandTextBox\<close> is
  \<^verbatim>\<open>"my app" --flag "value with space"\<close>, the command built, in either mode, is the list
  of the three tokens \<^verbatim>\<open>my app\<close>, \<^verbatim>\<open>--flag\<close> and \<^verbatim>\<open>value with space\<close>.
\<close>

theorem shell_quoted_tokens:
  assumes "layerType l \<notin> set (FROM_CONFIG_FILE J)"
    and "layerType l \<noteq> MAYA J"
    and "layerType l = SHELL J"
    and "map_of (cmd l) (Name ''commandTextBox'') =
           Some (PStr ([CHR 0x22] @ ''my app'' @ [CHR 0x22] @ '' --flag '' @ [CHR 0x22]
                       @ ''value with space'' @ [CHR 0x22]))"
  shows "buildLayerCommand J C l silent =
           Inr (CmdList [PStr ''my app'', PStr ''--flag'', PStr ''value with space''])"
  using assms shell_quoted
  by (simp add: buildLayerCommand_def buildShellCmd_def cmd_get_def cmd_item_def)

theorem shell_quoted_tokens_witness:
  "buildLayerCommand cfgJobTypes cfgConstants
     (mkLayer ''s'' ''Shell''
        [(Name ''commandTextBox'',
          PStr ([CHR 0x22] @ ''my app'' @ [CHR 0x22] @ '' --flag '' @ [CHR 0x22]
                @ ''value with space'' @ [CHR 0x22]))] ''1-5'' PNone) False =
     Inr (CmdList [PStr ''my app'', PStr ''--flag'', PStr ''value with space''])"
  using shell_quoted_tokens [where J = cfgJobTypes and C = cfgConstants and silent = False
      and l = "mkLayer ''s'' ''Shell''
        [(Name ''commandTextBox'',
          PStr ([CHR 0x22] @ ''my app'' @ [CHR 0x22] @ '' --flag '' @ [CHR 0x22]
                @ ''value with space'' @ [CHR 0x22]))] ''1-5'' PNone"]
  by (simp add: cfg_defs)

subsection \<open>C9: compositing is on by default\<close>

text \<open>
  C9. Whenever \<^verbatim>\<open>buildBlenderCmd\<close> returns a list: if \<^verbatim>\<open>cmd\<close> has no \<^verbatim>\<open>useCompositing\<close> key,
  \<^verbatim>\<open>--use-compositing\<close> is in the list, as its fifth element; and if
  \<^verbatim>\<open>--use-compositing\<close> is not in the list, the key is present with a falsy value.
\<close>

theorem blender_compositing_default:
  assumes "buildBlenderCmd C l silent = Inr args"
  shows "(map_of (cmd l) (Name ''useCompositing'') = None \<longrightarrow>
            PStr ''--use-compositing'' \<in> set args \<and>
            take 5 args =
              [cmd_get (cmd l) ''blenderExecutable'' (PStr (BLENDER_RENDER_CMD C)), PStr ''-b'',
               PStr ''-noaudio'', cmd_get (cmd l) ''blenderFile'' PNone,
               PStr ''--use-compositing'']) \<and>
         (PStr ''--use-compositing'' \<notin> set args \<longrightarrow>
            (\<exists>v. map_of (cmd l) (Name ''useCompositing'') = Some v \<and> \<not> py_truthy v))"
proof -
  let ?u = "cmd_get (cmd l) ''useCompositing'' (PBool True)"
  have t: "PStr ''--use-compositing'' \<in> set args \<and>
      take 5 args =
        [cmd_get (cmd l) ''blenderExecutable'' (PStr (BLENDER_RENDER_CMD C)), PStr ''-b'',
         PStr ''-noaudio'', cmd_get (cmd l) ''blenderFile'' PNone, PStr ''--use-compositing'']"
    if "py_truthy ?u"
    using assms that by (auto simp: buildBlenderCmd_def Let_def split: if_splits)
  have a: "py_truthy ?u" if "map_of (cmd l) (Name ''useCompositing'') = None"
    using that by (simp add: cmd_get_def)
  have b: "\<exists>v. map_of (cmd l) (Name ''useCompositing'') = Some v \<and> \<not> py_truthy v"
    if "\<not> py_truthy ?u"
    using that by (cases "map_of (cmd l) (Name ''useCompositing'')") (simp_all add: cmd_get_def)
  show ?thesis using t a b by blast
qed

theorem blender_compositing_default_witness:
  "PStr ''--use-compositing'' \<in>
     set [PStr ''blender'', PStr ''-b'', PStr ''-noaudio'', PStr ''scene.blend'',
          PStr ''--use-compositing'', PStr ''-f'', PStr ''#IFRAME#''] \<and>
   buildBlenderCmd cfgConstants
      (mkLayer ''b'' ''Blender''
         [(Name ''blenderFile'', PStr ''scene.blend''), (Name ''useCompositing'', PBool False)]
         ''50'' PNone) False =
     Inr [PStr ''blender'', PStr ''-b'', PStr ''-noaudio'', PStr ''scene.blend'',
          PStr ''-f'', PStr ''#IFRAME#''] \<and>
   (\<exists>v. map_of [(Name ''blenderFile'', PStr ''scene.blend''),
                (Name ''useCompositing'', PBool False)] (Name ''useCompositing'') = Some v \<and>
        \<not> py_truthy v)"
proof -
  have s: "\<not> isFrameSpan ''50''"
    by (simp add: isFrameSpan_def is_digit_def at_dollar_def)
  have a: "buildBlenderCmd cfgConstants
      (mkLayer ''b'' ''Blender'' [(Name ''blenderFile'', PStr ''scene.blend'')] ''50'' PNone)
      False =
     Inr [PStr ''blender'', PStr ''-b'', PStr ''-noaudio'', PStr ''scene.blend'',
          PStr ''--use-compositing'', PStr ''-f'', PStr ''#IFRAME#'']"
    by (simp add: cfg_defs buildBlenderCmd_def cmd_get_def s)
  have b: "buildBlenderCmd cfgConstants
      (mkLayer ''b'' ''Blender''
         [(Name ''blenderFile'', PStr ''scene.blend''), (Name ''useCompositing'', PBool False)]
         ''50'' PNone) False =
     Inr [PStr ''blender'', PStr ''-b'', PStr ''-noaudio'', PStr ''scene.blend'',
          PStr ''-f'', PStr ''#IFRAME#'']"
    by (simp add: cfg_defs buildBlenderCmd_def cmd_get_def s)
  show ?thesis
    using blender_compositing_default [OF a] blender_compositing_default [OF b] b
    by (simp add: cfg_defs)
qed

subsection \<open>C10: the layer carries a list of tokens\<close>



end
